theory Spec2Isabelle
  imports Main
begin

section \<open>The structured logger (package logger)\<close>

subsection \<open>Levels\<close>

text \<open>
  \<^verbatim>\<open>type Level int\<close> with the constants \<^verbatim>\<open>DebugLevel = iota\<close> ... \<^verbatim>\<open>FatalLevel\<close>.
  A level is an integer, so a logger can be built at a level outside the five constants;
  the gates compare integers.
\<close>

type_synonym Level = int

definition DebugLevel :: Level where "DebugLevel = 0"
definition InfoLevel :: Level where "InfoLevel = 1"
definition WarnLevel :: Level where "WarnLevel = 2"
definition ErrorLevel :: Level where "ErrorLevel = 3"
definition FatalLevel :: Level where "FatalLevel = 4"

text \<open>The map \<^verbatim>\<open>levelNames\<close>; reading a missing key of a Go map gives the empty string.\<close>

definition levelNames :: "Level \<Rightarrow> string" where
  "levelNames lv =
     (if lv = DebugLevel then ''DEBUG''
      else if lv = InfoLevel then ''INFO''
      else if lv = WarnLevel then ''WARN''
      else if lv = ErrorLevel then ''ERROR''
      else if lv = FatalLevel then ''FATAL''
      else [])"

subsection \<open>Fields and their printed form\<close>

text \<open>
  \<^verbatim>\<open>Field{Key string; Value interface{}}\<close>. The dynamic values that occur are
  modelled by a datatype, printed as \<^verbatim>\<open>%v\<close> prints them: \<^verbatim>\<open>nil\<close> as \<^verbatim>\<open><nil>\<close>, an
  integer in decimal, a string as it is, a boolean as \<^verbatim>\<open>true\<close>/\<^verbatim>\<open>false\<close>.
\<close>

datatype fval = VNil | VInt int | VStr string | VBool bool

record Field =
  Key :: string
  Value :: fval

definition zeroField :: Field where
  "zeroField = \<lparr>Key = [], Value = VNil\<rparr>"

definition digit_char :: "nat \<Rightarrow> char" where
  "digit_char d = ''0123456789'' ! d"

function itoa_nat :: "nat \<Rightarrow> string" where
  "itoa_nat n = (if n < 10 then [digit_char n] else itoa_nat (n div 10) @ [digit_char (n mod 10)])"
  by pat_completeness auto
termination
  by (relation "measure id") auto

declare itoa_nat.simps [simp del]

definition itoa :: "int \<Rightarrow> string" where
  "itoa i = (if i < 0 then CHR ''-'' # itoa_nat (nat (- i)) else itoa_nat (nat i))"

fun format_v :: "fval \<Rightarrow> string" where
  "format_v VNil = ''<nil>''"
| "format_v (VInt i) = itoa i"
| "format_v (VStr s) = s"
| "format_v (VBool b) = (if b then ''true'' else ''false'')"

text \<open>\<^verbatim>\<open>fmt.Sprintf("%s=%v", f.Key, f.Value)\<close>\<close>

definition format_field :: "Field \<Rightarrow> string" where
  "format_field f = Key f @ ''='' @ format_v (Value f)"

subsection \<open>Slices over a store of backing arrays\<close>

text \<open>
  A Go slice is a header (pointer, length, capacity) over a backing array that other
  headers may share. The store is the list of the arrays allocated so far; a pointer is
  an index into it. All slices of the logger start at offset 0 of their array.
  \<^verbatim>\<open>append(s, xs...)\<close> writes in place when the capacity suffices and allocates a
  grown copy otherwise. The capacity of the grown array is chosen by the Go runtime
  (\<^verbatim>\<open>growslice\<close>), not by this repository: it is the parameter \<open>g\<close>, applied to the
  old capacity and the needed length.
\<close>

record slice =
  ptr :: nat
  len :: nat
  cap :: nat

type_synonym store = "Field list list"

definition view :: "store \<Rightarrow> slice \<Rightarrow> Field list" where
  "view h s = take (len s) (h ! ptr s)"

definition wf_slice :: "store \<Rightarrow> slice \<Rightarrow> bool" where
  "wf_slice h s \<longleftrightarrow> ptr s < length h \<and> len s \<le> cap s \<and> cap s = length (h ! ptr s)"

text \<open>\<^verbatim>\<open>make([]Field, 0)\<close>\<close>

definition make_empty :: "store \<Rightarrow> store \<times> slice" where
  "make_empty h = (h @ [[]], \<lparr>ptr = length h, len = 0, cap = 0\<rparr>)"

definition append_slice ::
  "(nat \<Rightarrow> nat \<Rightarrow> nat) \<Rightarrow> store \<Rightarrow> slice \<Rightarrow> Field list \<Rightarrow> store \<times> slice" where
  "append_slice g h s xs =
     (let n = len s + length xs; arr = h ! ptr s in
      if n \<le> cap s
      then (h[ptr s := take (len s) arr @ xs @ drop n arr], s\<lparr>len := n\<rparr>)
      else (let c = g (cap s) n in
            (h @ [take (len s) arr @ xs @ replicate (c - n) zeroField],
             \<lparr>ptr = length h, len = n, cap = c\<rparr>)))"

text \<open>
  The growth rule of the Go runtime for capacities below 256 elements
  (\<^verbatim>\<open>runtime.nextslicecap\<close>): the needed length when it exceeds twice the old capacity,
  twice the old capacity otherwise. The allocator then rounds the array up to a size
  class; for the 32-byte \<^verbatim>\<open>Field\<close> the capacities 1, 2 and 4 are size classes
  themselves. The rule is used only where a concrete run is evaluated, and only at these
  capacities; the general properties hold for every \<open>g\<close>.
\<close>

definition go_growslice :: "nat \<Rightarrow> nat \<Rightarrow> nat" where
  "go_growslice oldCap newLen = (if newLen > oldCap + oldCap then newLen else oldCap + oldCap)"

subsection \<open>Writers, the world, and what a call reads from the runtime\<close>

text \<open>
  An \<^verbatim>\<open>io.Writer\<close> is \<^verbatim>\<open>os.Stdout\<close>, a caller-supplied writer, or the nil interface
  value, which \<^verbatim>\<open>NewWithWriter\<close> accepts like any other. A call of \<^verbatim>\<open>Write\<close> has one
  of three outcomes: the writer takes the whole string and returns no error; it takes the
  first \<open>n\<close> bytes (none, some or all of them) and returns an error; or the call
  panics. A call on the nil writer always panics.

  The world holds the store of backing arrays, the chunks each writer has taken, the
  outcome each writer gives to its next write, the lines handed to the standard
  \<^verbatim>\<open>log\<close> package, the exit status once \<^verbatim>\<open>os.Exit\<close> has been called, and whether a
  panic is on its way to the caller. The operations are applied to a world in which no
  panic is under way. The mutex \<^verbatim>\<open>mu\<close> has no content in a sequential model and is
  left out.
\<close>

datatype writer = Stdout | Writer nat | NilWriter

datatype outcome = Accepts | Fails nat | Panics

record world =
  arrays :: store
  sinks :: "writer \<Rightarrow> string list"
  behaviour :: "writer \<Rightarrow> outcome"
  stdlog :: "string list"
  exited :: "int option"
  panicked :: bool

definition write_outcome :: "world \<Rightarrow> writer \<Rightarrow> outcome" where
  "write_outcome w out = (if out = NilWriter then Panics else behaviour w out)"

text \<open>A writer is broken when its next write is not taken whole and without error.\<close>

definition broken :: "world \<Rightarrow> writer \<Rightarrow> bool" where
  "broken w out \<longleftrightarrow> write_outcome w out \<noteq> Accepts"

text \<open>What a sink holds after a write of \<open>s\<close> of which it took the first \<open>n\<close> bytes.\<close>

definition keep_prefix :: "string list \<Rightarrow> string \<Rightarrow> nat \<Rightarrow> string list" where
  "keep_prefix chunks s n = (if take n s = [] then chunks else chunks @ [take n s])"

text \<open>
  A stack frame as \<^verbatim>\<open>runtime.Caller\<close> and \<^verbatim>\<open>runtime.FuncForPC(pc).Name()\<close> report it.
  A logging call reads the clock, already formatted with the layout
  \<^verbatim>\<open>2006-01-02T15:04:05.000Z07:00\<close>, and the stack.
\<close>

record frame =
  funcName :: string
  fileName :: string
  line :: int

record env =
  now :: string
  callers :: "nat \<Rightarrow> frame option"

record zapLogger =
  level :: Level
  outputW :: writer
  fieldsS :: slice
  caller :: bool
  callerSkip :: nat

subsection \<open>Constructors and derivation\<close>

definition NewWithWriter :: "world \<Rightarrow> Level \<Rightarrow> writer \<Rightarrow> world \<times> zapLogger" where
  "NewWithWriter w lv out =
     (let (h, s) = make_empty (arrays w) in
      (w\<lparr>arrays := h\<rparr>,
       \<lparr>level = lv, outputW = out, fieldsS = s, caller = True, callerSkip = 2\<rparr>))"

definition New :: "world \<Rightarrow> Level \<Rightarrow> world \<times> zapLogger" where
  "New w lv =
     (let (h, s) = make_empty (arrays w) in
      (w\<lparr>arrays := h\<rparr>,
       \<lparr>level = lv, outputW = Stdout, fieldsS = s, caller = True, callerSkip = 2\<rparr>))"

definition WithField ::
  "(nat \<Rightarrow> nat \<Rightarrow> nat) \<Rightarrow> world \<Rightarrow> zapLogger \<Rightarrow> string \<Rightarrow> fval \<Rightarrow> world \<times> zapLogger" where
  "WithField g w l key v =
     (let (h, s) = append_slice g (arrays w) (fieldsS l) [\<lparr>Key = key, Value = v\<rparr>] in
      (w\<lparr>arrays := h\<rparr>,
       \<lparr>level = level l, outputW = outputW l, fieldsS = s,
        caller = caller l, callerSkip = callerSkip l\<rparr>))"

definition WithFields ::
  "(nat \<Rightarrow> nat \<Rightarrow> nat) \<Rightarrow> world \<Rightarrow> zapLogger \<Rightarrow> Field list \<Rightarrow> world \<times> zapLogger" where
  "WithFields g w l fs =
     (let (h, newFields) = append_slice g (arrays w) (fieldsS l) fs in
      (w\<lparr>arrays := h\<rparr>,
       \<lparr>level = level l, outputW = outputW l, fieldsS = newFields,
        caller = caller l, callerSkip = callerSkip l\<rparr>))"

subsection \<open>Formatting and writing a line\<close>

text \<open>\<^verbatim>\<open>strings.LastIndexByte(funcName, '.')\<close> and the cut after it.\<close>

fun after_last_dot :: "string \<Rightarrow> string \<Rightarrow> string" where
  "after_last_dot acc [] = acc"
| "after_last_dot acc (c # cs) =
     (if c = CHR ''.'' then after_last_dot cs cs else after_last_dot acc cs)"

definition short_func :: "string \<Rightarrow> string" where
  "short_func name = after_last_dot name name"

text \<open>\<^verbatim>\<open>filepath.Base\<close> on a system whose separator is the slash.\<close>

fun strip_trailing_slashes :: "string \<Rightarrow> string" where
  "strip_trailing_slashes p =
     rev (dropWhile (\<lambda>c. c = CHR ''/'') (rev p))"

definition filepath_Base :: "string \<Rightarrow> string" where
  "filepath_Base path =
     (if path = [] then ''.''
      else (let p = strip_trailing_slashes path;
                b = rev (takeWhile (\<lambda>c. c \<noteq> CHR ''/'') (rev p))
            in if b = [] then ''/'' else b))"

text \<open>The loop that builds \<^verbatim>\<open>fieldsStr\<close>; \<open>i\<close> is the index of the next field.\<close>

fun fields_loop :: "nat \<Rightarrow> Field list \<Rightarrow> string \<Rightarrow> string" where
  "fields_loop i [] acc = acc"
| "fields_loop i (f # fs) acc =
     fields_loop (Suc i) fs
       ((if i > 0 then acc @ '' '' else acc) @ format_field f)"

definition build_fieldsStr :: "Field list \<Rightarrow> string" where
  "build_fieldsStr allFields =
     (if length allFields > 0 then fields_loop 0 allFields '' '' else [])"

definition caller_info :: "env \<Rightarrow> zapLogger \<Rightarrow> string" where
  "caller_info e l =
     (if caller l then
        (case callers e (callerSkip l) of
           Some fr \<Rightarrow>
             filepath_Base (fileName fr) @ '':'' @ itoa (line fr) @ '' ('' @
               short_func (funcName fr) @ '')''
         | None \<Rightarrow> [])
      else [])"

definition format_line :: "env \<Rightarrow> zapLogger \<Rightarrow> Level \<Rightarrow> string \<Rightarrow> Field list \<Rightarrow> string" where
  "format_line e l lv msg allFields =
     (let callerStr = caller_info e l;
          timestamp = now e;
          levelStr = levelNames lv;
          fieldsStr = build_fieldsStr allFields;
          fieldsStr' = (if callerStr \<noteq> [] then fieldsStr @ '' caller='' @ callerStr
                        else fieldsStr)
      in timestamp @ '' ['' @ levelStr @ ''] '' @ msg @ fieldsStr' @ [CHR 0x0A])"

text \<open>
  \<^verbatim>\<open>io.WriteString(l.output, logLine)\<close> with the fallback \<^verbatim>\<open>log.Print(logLine)\<close>
  when the write returns an error. The sink keeps what it took before the error. A
  panic of the write is not recovered: nothing after it runs.
\<close>

definition write_line :: "world \<Rightarrow> writer \<Rightarrow> string \<Rightarrow> world" where
  "write_line w out logLine =
     (case write_outcome w out of
        Accepts \<Rightarrow> w\<lparr>sinks := (sinks w)(out := sinks w out @ [logLine])\<rparr>
      | Fails n \<Rightarrow>
          w\<lparr>sinks := (sinks w)(out := keep_prefix (sinks w out) logLine n),
            stdlog := stdlog w @ [logLine]\<rparr>
      | Panics \<Rightarrow> w\<lparr>panicked := True\<rparr>)"

definition log ::
  "(nat \<Rightarrow> nat \<Rightarrow> nat) \<Rightarrow> env \<Rightarrow> world \<Rightarrow> zapLogger \<Rightarrow> Level \<Rightarrow> string \<Rightarrow> Field list \<Rightarrow> world" where
  "log g e w l lv msg fs =
     (let (h, allFields) = append_slice g (arrays w) (fieldsS l) fs;
          logLine = format_line e l lv msg (view h allFields)
      in write_line (w\<lparr>arrays := h\<rparr>) (outputW l) logLine)"

subsection \<open>The level methods\<close>

definition Debug ::
  "(nat \<Rightarrow> nat \<Rightarrow> nat) \<Rightarrow> env \<Rightarrow> world \<Rightarrow> zapLogger \<Rightarrow> string \<Rightarrow> Field list \<Rightarrow> world" where
  "Debug g e w l msg fs = (if level l \<le> DebugLevel then log g e w l DebugLevel msg fs else w)"

definition Info ::
  "(nat \<Rightarrow> nat \<Rightarrow> nat) \<Rightarrow> env \<Rightarrow> world \<Rightarrow> zapLogger \<Rightarrow> string \<Rightarrow> Field list \<Rightarrow> world" where
  "Info g e w l msg fs = (if level l \<le> InfoLevel then log g e w l InfoLevel msg fs else w)"

definition Warn ::
  "(nat \<Rightarrow> nat \<Rightarrow> nat) \<Rightarrow> env \<Rightarrow> world \<Rightarrow> zapLogger \<Rightarrow> string \<Rightarrow> Field list \<Rightarrow> world" where
  "Warn g e w l msg fs = (if level l \<le> WarnLevel then log g e w l WarnLevel msg fs else w)"

definition Error ::
  "(nat \<Rightarrow> nat \<Rightarrow> nat) \<Rightarrow> env \<Rightarrow> world \<Rightarrow> zapLogger \<Rightarrow> string \<Rightarrow> Field list \<Rightarrow> world" where
  "Error g e w l msg fs = (if level l \<le> ErrorLevel then log g e w l ErrorLevel msg fs else w)"

text \<open>
  \<^verbatim>\<open>l.log(FatalLevel, msg, fields...); os.Exit(1)\<close>: the exit is reached when
  \<open>log\<close> returns, not when it panics.
\<close>

definition os_Exit :: "world \<Rightarrow> int \<Rightarrow> world" where
  "os_Exit w code = w\<lparr>exited := Some code\<rparr>"

definition Fatal ::
  "(nat \<Rightarrow> nat \<Rightarrow> nat) \<Rightarrow> env \<Rightarrow> world \<Rightarrow> zapLogger \<Rightarrow> string \<Rightarrow> Field list \<Rightarrow> world" where
  "Fatal g e w l msg fs =
     (let w' = log g e w l FatalLevel msg fs in
      if panicked w' then w' else os_Exit w' 1)"

subsection \<open>Observations used to state the properties\<close>

text \<open>The line a call of \<open>log\<close> builds, read off the store after its \<^verbatim>\<open>append\<close>.\<close>

definition logLine_of ::
  "(nat \<Rightarrow> nat \<Rightarrow> nat) \<Rightarrow> env \<Rightarrow> world \<Rightarrow> zapLogger \<Rightarrow> Level \<Rightarrow> string \<Rightarrow> Field list \<Rightarrow> string" where
  "logLine_of g e w l lv msg fs =
     (case append_slice g (arrays w) (fieldsS l) fs of
        (h, allFields) \<Rightarrow> format_line e l lv msg (view h allFields))"

text \<open>The four methods behind a level gate, to quantify over them.\<close>

datatype gated = GDebug | GInfo | GWarn | GError

fun gated_level :: "gated \<Rightarrow> Level" where
  "gated_level GDebug = DebugLevel"
| "gated_level GInfo = InfoLevel"
| "gated_level GWarn = WarnLevel"
| "gated_level GError = ErrorLevel"

fun call_gated ::
  "gated \<Rightarrow> (nat \<Rightarrow> nat \<Rightarrow> nat) \<Rightarrow> env \<Rightarrow> world \<Rightarrow> zapLogger \<Rightarrow> string \<Rightarrow> Field list \<Rightarrow> world" where
  "call_gated GDebug = Debug"
| "call_gated GInfo = Info"
| "call_gated GWarn = Warn"
| "call_gated GError = Error"

text \<open>The fields rendered as the specification words it: one \<open>key=value\<close> token per
  field, each after a single space.\<close>

definition render_tokens :: "Field list \<Rightarrow> string" where
  "render_tokens fs = concat (map (\<lambda>f. '' '' @ format_field f) fs)"

text \<open>The world before any allocation or output, with every writer accepting.\<close>

definition world0 :: world where
  "world0 =
     \<lparr>arrays = [], sinks = (\<lambda>_. []), behaviour = (\<lambda>_. Accepts), stdlog = [],
      exited = None, panicked = False\<rparr>"

definition quiet_env :: "string \<Rightarrow> env" where
  "quiet_env t = \<lparr>now = t, callers = (\<lambda>_. None)\<rparr>"

subsection \<open>The global logger and the package-level functions\<close>

text \<open>
  \<^verbatim>\<open>var globalLogger Logger = New(InfoLevel)\<close>: the package state is the variable
  together with the world. The package-level functions carry the prefix \<open>pkg\<close>, as the
  methods already hold the plain names.
\<close>

record program =
  globalLogger :: zapLogger
  wld :: world

definition init_program :: "world \<Rightarrow> program" where
  "init_program w = (let (w', l) = New w InfoLevel in \<lparr>globalLogger = l, wld = w'\<rparr>)"

definition SetGlobalLogger :: "program \<Rightarrow> zapLogger \<Rightarrow> program" where
  "SetGlobalLogger p logger = p\<lparr>globalLogger := logger\<rparr>"

definition GetGlobalLogger :: "program \<Rightarrow> zapLogger" where
  "GetGlobalLogger p = globalLogger p"

definition pkg_Debug ::
  "(nat \<Rightarrow> nat \<Rightarrow> nat) \<Rightarrow> env \<Rightarrow> program \<Rightarrow> string \<Rightarrow> Field list \<Rightarrow> program" where
  "pkg_Debug g e p msg fs = p\<lparr>wld := Debug g e (wld p) (globalLogger p) msg fs\<rparr>"

definition pkg_Info ::
  "(nat \<Rightarrow> nat \<Rightarrow> nat) \<Rightarrow> env \<Rightarrow> program \<Rightarrow> string \<Rightarrow> Field list \<Rightarrow> program" where
  "pkg_Info g e p msg fs = p\<lparr>wld := Info g e (wld p) (globalLogger p) msg fs\<rparr>"

definition pkg_Warn ::
  "(nat \<Rightarrow> nat \<Rightarrow> nat) \<Rightarrow> env \<Rightarrow> program \<Rightarrow> string \<Rightarrow> Field list \<Rightarrow> program" where
  "pkg_Warn g e p msg fs = p\<lparr>wld := Warn g e (wld p) (globalLogger p) msg fs\<rparr>"

definition pkg_Error ::
  "(nat \<Rightarrow> nat \<Rightarrow> nat) \<Rightarrow> env \<Rightarrow> program \<Rightarrow> string \<Rightarrow> Field list \<Rightarrow> program" where
  "pkg_Error g e p msg fs = p\<lparr>wld := Error g e (wld p) (globalLogger p) msg fs\<rparr>"

definition pkg_Fatal ::
  "(nat \<Rightarrow> nat \<Rightarrow> nat) \<Rightarrow> env \<Rightarrow> program \<Rightarrow> string \<Rightarrow> Field list \<Rightarrow> program" where
  "pkg_Fatal g e p msg fs = p\<lparr>wld := Fatal g e (wld p) (globalLogger p) msg fs\<rparr>"

definition pkg_WithField ::
  "(nat \<Rightarrow> nat \<Rightarrow> nat) \<Rightarrow> program \<Rightarrow> string \<Rightarrow> fval \<Rightarrow> program \<times> zapLogger" where
  "pkg_WithField g p key v =
     (let (w, d) = WithField g (wld p) (globalLogger p) key v in (p\<lparr>wld := w\<rparr>, d))"

definition pkg_WithFields ::
  "(nat \<Rightarrow> nat \<Rightarrow> nat) \<Rightarrow> program \<Rightarrow> Field list \<Rightarrow> program \<times> zapLogger" where
  "pkg_WithFields g p fs =
     (let (w, d) = WithFields g (wld p) (globalLogger p) fs in (p\<lparr>wld := w\<rparr>, d))"

section \<open>The HTTP handlers (package cmd)\<close>

text \<open>
  A request is its method and its body. The \<^verbatim>\<open>http.ResponseWriter\<close> is the header
  map, the status once written, the body bytes written so far, and the error every
  \<^verbatim>\<open>Write\<close> returns when the connection is gone (\<open>None\<close> when writes succeed).
\<close>

record request =
  Method :: string
  Body :: string

record responseWriter =
  headers :: "string \<rightharpoonup> string"
  status :: "nat option"
  written :: string
  write_err :: "string option"

definition fresh_rw :: "string option \<Rightarrow> responseWriter" where
  "fresh_rw err = \<lparr>headers = Map.empty, status = None, written = [], write_err = err\<rparr>"

definition WriteHeader :: "responseWriter \<Rightarrow> nat \<Rightarrow> responseWriter" where
  "WriteHeader rw code = (if status rw = None then rw\<lparr>status := Some code\<rparr> else rw)"

text \<open>A first \<^verbatim>\<open>Write\<close> without a status sends 200. The result carries the error.\<close>

definition Write :: "responseWriter \<Rightarrow> string \<Rightarrow> responseWriter \<times> string option" where
  "Write rw s =
     (let rw' = WriteHeader rw 200 in
      case write_err rw' of
        None \<Rightarrow> (rw'\<lparr>written := written rw' @ s\<rparr>, None)
      | Some e \<Rightarrow> (rw', Some e))"

text \<open>\<^verbatim>\<open>http.Error\<close>: plain-text headers, the status, the message and a newline.\<close>

definition http_Error :: "responseWriter \<Rightarrow> string \<Rightarrow> nat \<Rightarrow> responseWriter" where
  "http_Error rw msg code =
     (let rw1 = rw\<lparr>headers := (headers rw)(''Content-Type'' \<mapsto> ''text/plain; charset=utf-8'',
                                   ''X-Content-Type-Options'' \<mapsto> ''nosniff'')\<rparr>;
          rw2 = WriteHeader rw1 code
      in fst (Write rw2 (msg @ [CHR 0x0A])))"

record WebhookPage =
  ID :: int
  Title :: string

record ConfluenceWebhook =
  Event :: string
  Page :: WebhookPage

text \<open>
  \<^verbatim>\<open>json.NewDecoder(r.Body).Decode(&webhook)\<close> belongs to the standard library: the
  handler is modelled for any decoder \<open>dec\<close>, which answers a body with the decoded
  struct or with \<open>None\<close> for an error. The second component of the handler's state is
  the list of lines handed to \<^verbatim>\<open>log.Printf\<close>.
\<close>

definition handleConfluenceWebhook ::
  "(string \<Rightarrow> ConfluenceWebhook option) \<Rightarrow> responseWriter \<times> string list \<Rightarrow> request
     \<Rightarrow> responseWriter \<times> string list" where
  "handleConfluenceWebhook dec st r =
     (case st of (w, lg) \<Rightarrow>
      if Method r \<noteq> ''POST'' then (http_Error w ''Method not allowed'' 405, lg)
      else (case dec (Body r) of
              None \<Rightarrow> (http_Error w ''Invalid payload'' 400, lg)
            | Some webhook \<Rightarrow>
                (let lg1 = lg @ [''Confluence event: '' @ Event webhook @ '', Page: '' @
                                 Title (Page webhook) @ [CHR 0x0A]];
                     w1 = WriteHeader w 200
                 in case Write w1 ''Webhook processed'' of
                      (w2, Some err) \<Rightarrow> (w2, lg1 @ [''Error writing response: '' @ err @ [CHR 0x0A]])
                    | (w2, None) \<Rightarrow> (w2, lg1))))"

text \<open>\<open>t\<close> is \<^verbatim>\<open>time.Now().Format(time.RFC3339)\<close>. The request is never read.\<close>

definition healthCheck :: "responseWriter \<Rightarrow> request \<Rightarrow> string \<Rightarrow> responseWriter" where
  \<open>healthCheck w r t =
     (let w1 = w\<lparr>headers := (headers w)(''Content-Type'' \<mapsto> ''application/json'')\<rparr>;
          w2 = WriteHeader w1 200
      in fst (Write w2 (''{"status":"healthy","timestamp":"'' @ t @ ''"}'')))\<close>

text \<open>The decoder's answers on two sample bodies, for the concrete runs.\<close>

definition sample_body :: string where
  \<open>sample_body = ''{"event":"page_created","page":{"id":1,"title":"T"}}''\<close>

definition sample_decode :: "string \<Rightarrow> ConfluenceWebhook option" where
  "sample_decode b =
     (if b = sample_body
      then Some \<lparr>Event = ''page_created'', Page = \<lparr>ID = 1, Title = ''T''\<rparr>\<rparr>
      else None)"

section \<open>Configuration (package cmd)\<close>

text \<open>
  The process environment is a map from names to values (\<^verbatim>\<open>os.LookupEnv\<close>). A
  \<^verbatim>\<open>time.Duration\<close> is a count of nanoseconds. \<^verbatim>\<open>time.ParseDuration\<close> and
  \<^verbatim>\<open>strconv.Atoi\<close> belong to the standard library and are parameters.
\<close>

record ServerConfig =
  Port :: string
  ReadTimeout :: int
  WriteTimeout :: int
  IdleTimeout :: int
  ShutdownTimeout :: int
  MaxHeaderBytes :: int

record AppConfig =
  Environment :: string
  LogLevel :: string

record Config =
  Server :: ServerConfig
  App :: AppConfig

definition Second :: int where
  "Second = 1000000000"

definition getEnv :: "(string \<rightharpoonup> string) \<Rightarrow> string \<Rightarrow> string \<Rightarrow> string" where
  "getEnv environ key defaultValue =
     (case environ key of Some v \<Rightarrow> v | None \<Rightarrow> defaultValue)"

definition getDurationEnv ::
  "(string \<Rightarrow> int option) \<Rightarrow> (string \<rightharpoonup> string) \<Rightarrow> string \<Rightarrow> int \<Rightarrow> int" where
  "getDurationEnv pd environ key defaultValue =
     (case environ key of
        Some v \<Rightarrow> (case pd v of Some duration \<Rightarrow> duration | None \<Rightarrow> defaultValue)
      | None \<Rightarrow> defaultValue)"

definition getIntEnv ::
  "(string \<Rightarrow> int option) \<Rightarrow> (string \<rightharpoonup> string) \<Rightarrow> string \<Rightarrow> int \<Rightarrow> int" where
  "getIntEnv atoi environ key defaultValue =
     (case environ key of
        Some v \<Rightarrow> (case atoi v of Some intVal \<Rightarrow> intVal | None \<Rightarrow> defaultValue)
      | None \<Rightarrow> defaultValue)"

definition LoadConfig :: "(string \<Rightarrow> int option) \<Rightarrow> (string \<rightharpoonup> string) \<Rightarrow> Config" where
  "LoadConfig pd environ =
     \<lparr>Server =
        \<lparr>Port = getEnv environ ''PORT'' ''8080'',
         ReadTimeout = getDurationEnv pd environ ''READ_TIMEOUT'' (15 * Second),
         WriteTimeout = getDurationEnv pd environ ''WRITE_TIMEOUT'' (15 * Second),
         IdleTimeout = getDurationEnv pd environ ''IDLE_TIMEOUT'' (60 * Second),
         ShutdownTimeout = getDurationEnv pd environ ''SHUTDOWN_TIMEOUT'' (30 * Second),
         MaxHeaderBytes = 2 ^ 20\<rparr>,
      App =
        \<lparr>Environment = getEnv environ ''ENVIRONMENT'' ''development'',
         LogLevel = getEnv environ ''LOG_LEVEL'' ''info''\<rparr>\<rparr>"

text \<open>
  The answers of \<^verbatim>\<open>time.ParseDuration\<close> on the strings of the concrete runs:
  \<^verbatim>\<open>5s\<close> is five seconds, and a string that does not start with a sign, a digit or a
  dot, such as \<^verbatim>\<open>abc\<close>, is an error.
\<close>

definition sample_ParseDuration :: "string \<Rightarrow> int option" where
  "sample_ParseDuration s = (if s = ''5s'' then Some (5 * Second) else None)"

section \<open>A concrete run of derivations\<close>

text \<open>
  A logger built by \<open>New\<close> and extended three times, one field at a time, under the
  runtime's growth rule: the third extension allocates an array of capacity 4 and uses 3
  cells. Two loggers are then derived from that same receiver, and the receiver logs once
  with a call-site field.
\<close>

definition run_base :: "world \<times> zapLogger" where
  "run_base = New world0 InfoLevel"

definition run_a :: "world \<times> zapLogger" where
  "run_a = WithField go_growslice (fst run_base) (snd run_base) ''k1'' (VInt 1)"

definition run_b :: "world \<times> zapLogger" where
  "run_b = WithField go_growslice (fst run_a) (snd run_a) ''k2'' (VInt 2)"

definition run_c :: "world \<times> zapLogger" where
  "run_c = WithField go_growslice (fst run_b) (snd run_b) ''k3'' (VInt 3)"

definition run_d1 :: "world \<times> zapLogger" where
  "run_d1 = WithField go_growslice (fst run_c) (snd run_c) ''x'' (VInt 1)"

definition run_d2 :: "world \<times> zapLogger" where
  "run_d2 = WithField go_growslice (fst run_d1) (snd run_c) ''y'' (VInt 2)"

definition run_logged :: world where
  "run_logged =
     Info go_growslice (quiet_env ''T'') (fst run_d1) (snd run_c) ''m''
       [\<lparr>Key = ''z'', Value = VInt 0\<rparr>]"

text \<open>
  A world whose writer 0 takes three bytes of its next write and then returns an error,
  and loggers on it. The last logger is built on the nil writer.
\<close>

definition broken_world :: world where
  "broken_world =
     world0\<lparr>behaviour := (\<lambda>out. if out = Writer 0 then Fails 3 else Accepts)\<rparr>"

definition plain_logger :: "Level \<Rightarrow> writer \<Rightarrow> world \<times> zapLogger" where
  "plain_logger lv out = NewWithWriter world0 lv out"

definition failing_logger :: "world \<times> zapLogger" where
  "failing_logger = NewWithWriter broken_world InfoLevel (Writer 0)"

definition nil_logger :: "world \<times> zapLogger" where
  "nil_logger = NewWithWriter world0 InfoLevel NilWriter"

text \<open>A logger value with caller capture switched off, holding the field \<open>a=1\<close>.\<close>

definition nocaller_world :: world where
  "nocaller_world = world0\<lparr>arrays := [[\<lparr>Key = ''a'', Value = VInt 1\<rparr>]]\<rparr>"

definition nocaller_logger :: zapLogger where
  "nocaller_logger =
     \<lparr>level = InfoLevel, outputW = Writer 1, fieldsS = \<lparr>ptr = 0, len = 1, cap = 1\<rparr>,
      caller = False, callerSkip = 2\<rparr>"

definition get_request :: request where
  "get_request = \<lparr>Method = ''GET'', Body = []\<rparr>"

definition post_request :: "string \<Rightarrow> request" where
  "post_request b = \<lparr>Method = ''POST'', Body = b\<rparr>"

text \<open>A process environment that sets every variable; \<^verbatim>\<open>WRITE_TIMEOUT\<close> is no duration.\<close>

definition sample_environ :: "string \<rightharpoonup> string" where
  "sample_environ =
     [''PORT'' \<mapsto> ''9090'', ''READ_TIMEOUT'' \<mapsto> ''5s'', ''WRITE_TIMEOUT'' \<mapsto> ''abc'',
      ''IDLE_TIMEOUT'' \<mapsto> ''5s'', ''SHUTDOWN_TIMEOUT'' \<mapsto> ''5s'',
      ''ENVIRONMENT'' \<mapsto> ''production'', ''LOG_LEVEL'' \<mapsto> ''debug'']"

section \<open>Properties of slices and of \<open>log\<close>\<close>

lemma append_slice_view:
  assumes "wf_slice h s" and "append_slice g h s xs = (h', s')"
  shows "view h' s' = view h s @ xs"
  using assms
  by (auto simp: append_slice_def view_def wf_slice_def Let_def split: if_splits)

lemma append_slice_other:
  assumes "wf_slice h s" and "append_slice g h s xs = (h', s')"
    and "ptr t < length h" and "ptr t \<noteq> ptr s \<or> len t \<le> len s"
  shows "view h' t = view h t"
  using assms
  by (cases "ptr t = ptr s")
     (auto simp: append_slice_def view_def wf_slice_def Let_def nth_append split: if_splits)

lemma append_slice_wf_other:
  assumes "wf_slice h s" and "append_slice g h s xs = (h', s')" and "wf_slice h t"
  shows "wf_slice h' t"
  using assms
  by (auto simp: append_slice_def wf_slice_def Let_def nth_append nth_list_update
      split: if_splits)

lemma make_empty_wf: "make_empty h = (h', s) \<Longrightarrow> wf_slice h' s"
  by (auto simp: make_empty_def wf_slice_def)

lemma logLine_of_view:
  assumes "wf_slice (arrays w) (fieldsS l)"
  shows "logLine_of g e w l lv msg fs = format_line e l lv msg (view (arrays w) (fieldsS l) @ fs)"
proof -
  obtain h s where a: "append_slice g (arrays w) (fieldsS l) fs = (h, s)"
    by (cases "append_slice g (arrays w) (fieldsS l) fs")
  from append_slice_view [OF assms a] a show ?thesis
    by (simp add: logLine_of_def)
qed

lemma log_write:
  "log g e w l lv msg fs =
     write_line (w\<lparr>arrays := fst (append_slice g (arrays w) (fieldsS l) fs)\<rparr>) (outputW l)
       (logLine_of g e w l lv msg fs)"
  by (simp add: log_def logLine_of_def split: prod.splits)

lemma write_outcome_arrays: "write_outcome (w\<lparr>arrays := h\<rparr>) out = write_outcome w out"
  by (simp add: write_outcome_def)

lemma log_accepts:
  assumes "\<not> broken w (outputW l)"
  shows "sinks (log g e w l lv msg fs) =
      (sinks w)(outputW l := sinks w (outputW l) @ [logLine_of g e w l lv msg fs])"
    and "stdlog (log g e w l lv msg fs) = stdlog w"
    and "panicked (log g e w l lv msg fs) = panicked w"
proof -
  from assms have "write_outcome w (outputW l) = Accepts"
    by (simp add: broken_def)
  then show "sinks (log g e w l lv msg fs) =
      (sinks w)(outputW l := sinks w (outputW l) @ [logLine_of g e w l lv msg fs])"
    and "stdlog (log g e w l lv msg fs) = stdlog w"
    and "panicked (log g e w l lv msg fs) = panicked w"
    by (simp_all add: log_write write_line_def write_outcome_arrays)
qed

lemma log_fails:
  assumes "write_outcome w (outputW l) = Fails n"
  shows "sinks (log g e w l lv msg fs) =
      (sinks w)(outputW l :=
         keep_prefix (sinks w (outputW l)) (logLine_of g e w l lv msg fs) n)"
    and "stdlog (log g e w l lv msg fs) = stdlog w @ [logLine_of g e w l lv msg fs]"
    and "panicked (log g e w l lv msg fs) = panicked w"
  using assms by (simp_all add: log_write write_line_def write_outcome_arrays)

lemma log_panics:
  assumes "write_outcome w (outputW l) = Panics"
  shows "panicked (log g e w l lv msg fs)"
    and "sinks (log g e w l lv msg fs) = sinks w"
    and "stdlog (log g e w l lv msg fs) = stdlog w"
  using assms by (simp_all add: log_write write_line_def write_outcome_arrays)

lemma log_returns:
  assumes "write_outcome w (outputW l) \<noteq> Panics"
  shows "panicked (log g e w l lv msg fs) = panicked w"
  using assms
  by (cases "write_outcome w (outputW l)")
     (simp_all add: log_write write_line_def write_outcome_arrays)

lemma log_exited: "exited (log g e w l lv msg fs) = exited w"
  by (simp add: log_write write_line_def split: outcome.splits)

lemma log_behaviour: "behaviour (log g e w l lv msg fs) = behaviour w"
  by (simp add: log_write write_line_def split: outcome.splits)

lemma call_gated_eq:
  "call_gated m g e w l msg fs =
     (if level l \<le> gated_level m then log g e w l (gated_level m) msg fs else w)"
  by (cases m) (simp_all add: Debug_def Info_def Warn_def Error_def)

lemma fields_loop_pos: "0 < i \<Longrightarrow> fields_loop i fs acc = acc @ render_tokens fs"
  by (induction fs arbitrary: i acc) (simp_all add: render_tokens_def)

lemma build_fieldsStr_render: "build_fieldsStr fs = render_tokens fs"
proof (cases fs)
  case Nil
  then show ?thesis by (simp add: build_fieldsStr_def render_tokens_def)
next
  case (Cons f fs')
  have "fields_loop (Suc 0) fs' ('' '' @ format_field f) = ('' '' @ format_field f) @ render_tokens fs'"
    by (rule fields_loop_pos) simp
  with Cons show ?thesis
    by (simp add: build_fieldsStr_def render_tokens_def)
qed

lemma caller_info_disabled: "\<not> caller l \<Longrightarrow> caller_info e l = []"
  by (simp add: caller_info_def)

lemma format_line_render:
  "format_line e l lv msg fs =
     now e @ '' ['' @ levelNames lv @ ''] '' @ msg @ render_tokens fs @
       (if caller_info e l \<noteq> [] then '' caller='' @ caller_info e l else []) @ [CHR 0x0A]"
  by (simp add: format_line_def build_fieldsStr_render Let_def)

lemma itoa_nat_digit: "n < 10 \<Longrightarrow> itoa_nat n = [digit_char n]"
  by (simp add: itoa_nat.simps)

lemma New_wf: "New w lv = (w', l) \<Longrightarrow> wf_slice (arrays w') (fieldsS l)"
  by (auto simp: New_def make_empty_def wf_slice_def Let_def)

lemma NewWithWriter_wf: "NewWithWriter w lv out = (w', l) \<Longrightarrow> wf_slice (arrays w') (fieldsS l)"
  by (auto simp: NewWithWriter_def make_empty_def wf_slice_def Let_def)

lemma WithFields_props:
  assumes "wf_slice (arrays w) (fieldsS l)" and "WithFields g w l fs = (w', d)"
  shows "view (arrays w') (fieldsS d) = view (arrays w) (fieldsS l) @ fs"
    and "view (arrays w') (fieldsS l) = view (arrays w) (fieldsS l)"
    and "wf_slice (arrays w') (fieldsS l)"
    and "outputW d = outputW l" and "level d = level l"
    and "caller d = caller l" and "callerSkip d = callerSkip l"
    and "sinks w' = sinks w" and "stdlog w' = stdlog w"
    and "exited w' = exited w" and "behaviour w' = behaviour w"
proof -
  obtain h s where a: "append_slice g (arrays w) (fieldsS l) fs = (h, s)"
    by (cases "append_slice g (arrays w) (fieldsS l) fs")
  with assms(2) have w': "w' = w\<lparr>arrays := h\<rparr>"
    and d: "d = \<lparr>level = level l, outputW = outputW l, fieldsS = s,
                 caller = caller l, callerSkip = callerSkip l\<rparr>"
    by (simp_all add: WithFields_def)
  from append_slice_view [OF assms(1) a] w' d
  show "view (arrays w') (fieldsS d) = view (arrays w) (fieldsS l) @ fs" by simp
  have "ptr (fieldsS l) < length (arrays w)"
    using assms(1) by (simp add: wf_slice_def)
  from append_slice_other [OF assms(1) a this] w'
  show "view (arrays w') (fieldsS l) = view (arrays w) (fieldsS l)" by simp
  from append_slice_wf_other [OF assms(1) a assms(1)] w'
  show "wf_slice (arrays w') (fieldsS l)" by simp
  from d show "outputW d = outputW l" "level d = level l"
    "caller d = caller l" "callerSkip d = callerSkip l" by simp_all
  from w' show "sinks w' = sinks w" "stdlog w' = stdlog w"
    "exited w' = exited w" "behaviour w' = behaviour w" by simp_all
qed

lemma WithField_WithFields:
  "WithField g w l key v = WithFields g w l [\<lparr>Key = key, Value = v\<rparr>]"
  by (simp add: WithField_def WithFields_def)

section \<open>The concrete run\<close>

lemmas run_defs = run_base_def run_a_def run_b_def run_c_def run_d1_def run_d2_def
  run_logged_def New_def WithField_def make_empty_def append_slice_def world0_def
  go_growslice_def Let_def quiet_env_def

lemma run_c_arrays:
  "arrays (fst run_c) =
     [[], [\<lparr>Key = ''k1'', Value = VInt 1\<rparr>],
      [\<lparr>Key = ''k1'', Value = VInt 1\<rparr>, \<lparr>Key = ''k2'', Value = VInt 2\<rparr>],
      [\<lparr>Key = ''k1'', Value = VInt 1\<rparr>, \<lparr>Key = ''k2'', Value = VInt 2\<rparr>,
       \<lparr>Key = ''k3'', Value = VInt 3\<rparr>, zeroField]]"
  by (simp add: run_defs)

lemma run_c_logger:
  "snd run_c = \<lparr>level = InfoLevel, outputW = Stdout, fieldsS = \<lparr>ptr = 3, len = 3, cap = 4\<rparr>,
                caller = True, callerSkip = 2\<rparr>"
  by (simp add: run_defs)

lemma run_c_quiet:
  "sinks (fst run_c) = (\<lambda>_. [])" "behaviour (fst run_c) = (\<lambda>_. Accepts)"
  "stdlog (fst run_c) = []" "exited (fst run_c) = None" "\<not> panicked (fst run_c)"
  by (simp_all add: run_defs)

lemma run_d1_arrays:
  "arrays (fst run_d1) =
     [[], [\<lparr>Key = ''k1'', Value = VInt 1\<rparr>],
      [\<lparr>Key = ''k1'', Value = VInt 1\<rparr>, \<lparr>Key = ''k2'', Value = VInt 2\<rparr>],
      [\<lparr>Key = ''k1'', Value = VInt 1\<rparr>, \<lparr>Key = ''k2'', Value = VInt 2\<rparr>,
       \<lparr>Key = ''k3'', Value = VInt 3\<rparr>, \<lparr>Key = ''x'', Value = VInt 1\<rparr>]]"
  by (simp add: run_d1_def WithField_def append_slice_def run_c_arrays run_c_logger Let_def)

lemma run_d1_logger:
  "snd run_d1 = \<lparr>level = InfoLevel, outputW = Stdout, fieldsS = \<lparr>ptr = 3, len = 4, cap = 4\<rparr>,
                 caller = True, callerSkip = 2\<rparr>"
  by (simp add: run_d1_def WithField_def append_slice_def run_c_arrays run_c_logger Let_def)

lemma run_d1_quiet:
  "sinks (fst run_d1) = (\<lambda>_. [])" "behaviour (fst run_d1) = (\<lambda>_. Accepts)"
  "stdlog (fst run_d1) = []" "exited (fst run_d1) = None" "\<not> panicked (fst run_d1)"
  by (simp_all add: run_d1_def WithField_def run_c_quiet split: prod.splits)

lemma run_d2_arrays:
  "arrays (fst run_d2) =
     [[], [\<lparr>Key = ''k1'', Value = VInt 1\<rparr>],
      [\<lparr>Key = ''k1'', Value = VInt 1\<rparr>, \<lparr>Key = ''k2'', Value = VInt 2\<rparr>],
      [\<lparr>Key = ''k1'', Value = VInt 1\<rparr>, \<lparr>Key = ''k2'', Value = VInt 2\<rparr>,
       \<lparr>Key = ''k3'', Value = VInt 3\<rparr>, \<lparr>Key = ''y'', Value = VInt 2\<rparr>]]"
  by (simp add: run_d2_def WithField_def append_slice_def run_d1_arrays run_c_logger Let_def)

lemma run_logged_arrays:
  "arrays run_logged =
     [[], [\<lparr>Key = ''k1'', Value = VInt 1\<rparr>],
      [\<lparr>Key = ''k1'', Value = VInt 1\<rparr>, \<lparr>Key = ''k2'', Value = VInt 2\<rparr>],
      [\<lparr>Key = ''k1'', Value = VInt 1\<rparr>, \<lparr>Key = ''k2'', Value = VInt 2\<rparr>,
       \<lparr>Key = ''k3'', Value = VInt 3\<rparr>, \<lparr>Key = ''z'', Value = VInt 0\<rparr>]]"
  by (simp add: run_logged_def Info_def log_write write_line_def write_outcome_def
      run_d1_quiet append_slice_def run_d1_arrays run_c_logger Let_def)

lemma run_logged_state:
  "exited run_logged = None" "\<not> panicked run_logged"
  by (simp_all add: run_logged_def Info_def log_write write_line_def write_outcome_def
      run_d1_quiet run_c_logger)

text \<open>
  Claim C1, evaluated on the run. The logger \<open>run_d1\<close> is derived from \<open>run_c\<close> with
  the field \<open>x=1\<close>. A second derivation from \<open>run_c\<close>, and likewise a logging call on
  \<open>run_c\<close> with a call-site field, writes into the same cell of the shared array: the
  field sequence of \<open>run_d1\<close> then ends in \<open>y=2\<close>, respectively \<open>z=0\<close>.
\<close>

theorem sibling_derivation_overwrites:
  "view (arrays (fst run_d1)) (fieldsS (snd run_d1)) =
     [\<lparr>Key = ''k1'', Value = VInt 1\<rparr>, \<lparr>Key = ''k2'', Value = VInt 2\<rparr>,
      \<lparr>Key = ''k3'', Value = VInt 3\<rparr>, \<lparr>Key = ''x'', Value = VInt 1\<rparr>] \<and>
   view (arrays (fst run_d2)) (fieldsS (snd run_d1)) =
     [\<lparr>Key = ''k1'', Value = VInt 1\<rparr>, \<lparr>Key = ''k2'', Value = VInt 2\<rparr>,
      \<lparr>Key = ''k3'', Value = VInt 3\<rparr>, \<lparr>Key = ''y'', Value = VInt 2\<rparr>] \<and>
   view (arrays run_logged) (fieldsS (snd run_d1)) =
     [\<lparr>Key = ''k1'', Value = VInt 1\<rparr>, \<lparr>Key = ''k2'', Value = VInt 2\<rparr>,
      \<lparr>Key = ''k3'', Value = VInt 3\<rparr>, \<lparr>Key = ''z'', Value = VInt 0\<rparr>] \<and>
   view (arrays (fst run_d2)) (fieldsS (snd run_d1)) \<noteq>
     view (arrays (fst run_d1)) (fieldsS (snd run_d1)) \<and>
   view (arrays run_logged) (fieldsS (snd run_d1)) \<noteq>
     view (arrays (fst run_d1)) (fieldsS (snd run_d1))"
  by (simp add: view_def run_d1_arrays run_d1_logger run_d2_arrays run_logged_arrays)

section \<open>Derivation leaves the receiver alone\<close>

lemma run_d1_WithFields:
  "WithFields go_growslice (fst run_c) (snd run_c) [\<lparr>Key = ''x'', Value = VInt 1\<rparr>] =
     (fst run_d1, snd run_d1)"
  by (simp add: run_d1_def WithField_WithFields)

lemma run_c_wf: "wf_slice (arrays (fst run_c)) (fieldsS (snd run_c))"
  by (simp add: wf_slice_def run_c_arrays run_c_logger)

text \<open>
  Claim C3. For a logger \<open>l\<close> whose slice is well formed, \<open>WithField\<close> is
  \<open>WithFields\<close> of the one field, and \<open>WithFields\<close> returns a logger whose field
  sequence is that of \<open>l\<close> followed by the new fields, with the sink, level, caller flag
  and skip depth of \<open>l\<close>. The field sequence of \<open>l\<close> and the output so far are
  unchanged, and a later logging call on \<open>l\<close> writes the line built from the original
  fields of \<open>l\<close> followed by the call-site fields.
\<close>

theorem derivation_frame:
  assumes "wf_slice (arrays w) (fieldsS l)" and "WithFields g w l fs = (w', d)"
  shows "WithField g w l key v = WithFields g w l [\<lparr>Key = key, Value = v\<rparr>] \<and>
    view (arrays w') (fieldsS d) = view (arrays w) (fieldsS l) @ fs \<and>
    outputW d = outputW l \<and> level d = level l \<and>
    caller d = caller l \<and> callerSkip d = callerSkip l \<and>
    view (arrays w') (fieldsS l) = view (arrays w) (fieldsS l) \<and>
    sinks w' = sinks w \<and> stdlog w' = stdlog w \<and> exited w' = exited w \<and>
    logLine_of g2 e w' l lv msg cs =
      format_line e l lv msg (view (arrays w) (fieldsS l) @ cs) \<and>
    log g2 e w' l lv msg cs =
      write_line (w'\<lparr>arrays := fst (append_slice g2 (arrays w') (fieldsS l) cs)\<rparr>) (outputW l)
        (format_line e l lv msg (view (arrays w) (fieldsS l) @ cs))"
proof -
  note p = WithFields_props [OF assms]
  have line: "logLine_of g2 e w' l lv msg cs =
      format_line e l lv msg (view (arrays w) (fieldsS l) @ cs)"
    using logLine_of_view [OF p(3)] p(2) by simp
  have "log g2 e w' l lv msg cs =
      write_line (w'\<lparr>arrays := fst (append_slice g2 (arrays w') (fieldsS l) cs)\<rparr>) (outputW l)
        (format_line e l lv msg (view (arrays w) (fieldsS l) @ cs))"
    using log_write [of g2 e w' l lv msg cs] line by simp
  with line p show ?thesis
    by (simp add: WithField_WithFields)
qed

theorem derivation_frame_witness:
  "wf_slice (arrays (fst run_c)) (fieldsS (snd run_c)) \<and>
   WithFields go_growslice (fst run_c) (snd run_c) [\<lparr>Key = ''x'', Value = VInt 1\<rparr>] =
     (fst run_d1, snd run_d1) \<and>
   view (arrays (fst run_d1)) (fieldsS (snd run_d1)) =
     [\<lparr>Key = ''k1'', Value = VInt 1\<rparr>, \<lparr>Key = ''k2'', Value = VInt 2\<rparr>,
      \<lparr>Key = ''k3'', Value = VInt 3\<rparr>, \<lparr>Key = ''x'', Value = VInt 1\<rparr>] \<and>
   view (arrays (fst run_d1)) (fieldsS (snd run_c)) =
     [\<lparr>Key = ''k1'', Value = VInt 1\<rparr>, \<lparr>Key = ''k2'', Value = VInt 2\<rparr>,
      \<lparr>Key = ''k3'', Value = VInt 3\<rparr>] \<and>
   logLine_of go_growslice (quiet_env ''T'') (fst run_d1) (snd run_c) InfoLevel ''m'' [] =
     ''T [INFO] m k1=1 k2=2 k3=3'' @ [CHR 0x0A]"
  using derivation_frame [OF run_c_wf run_d1_WithFields,
      of "''x''" "VInt 1" go_growslice "quiet_env ''T''" InfoLevel "''m''" "[]"]
    run_c_wf run_d1_WithFields
  by (simp add: view_def run_c_arrays run_c_logger format_line_render render_tokens_def
      format_field_def itoa_def itoa_nat_digit digit_char_def caller_info_def quiet_env_def
      levelNames_def InfoLevel_def DebugLevel_def)

section \<open>Level gating\<close>

lemmas eval_defs = New_def NewWithWriter_def WithField_def WithFields_def make_empty_def
  append_slice_def world0_def go_growslice_def Let_def quiet_env_def view_def
  format_line_render render_tokens_def format_field_def itoa_def itoa_nat_digit digit_char_def
  caller_info_def levelNames_def log_write write_line_def write_outcome_def broken_def
  keep_prefix_def logLine_of_def
  DebugLevel_def InfoLevel_def WarnLevel_def ErrorLevel_def FatalLevel_def



section \<open>Fatal\<close>

lemma nil_logger_eval:
  "fst nil_logger = world0\<lparr>arrays := [[]]\<rparr>"
  "snd nil_logger = \<lparr>level = InfoLevel, outputW = NilWriter,
                      fieldsS = \<lparr>ptr = 0, len = 0, cap = 0\<rparr>, caller = True, callerSkip = 2\<rparr>"
  by (simp_all add: nil_logger_def NewWithWriter_def make_empty_def world0_def)

text \<open>
  Claim C5, as stated, at two concrete inputs. On the run, \<open>Info\<close> on \<open>run_c\<close> with
  the call-site field \<open>z=0\<close> neither exits nor panics, yet the field sequence of the
  logger \<open>run_d1\<close> ends in \<open>x=1\<close> before the call and in \<open>z=0\<close> after it: a level
  method other than \<open>Fatal\<close> has an effect beyond its output. On the logger built on the
  nil writer, \<open>Fatal\<close> panics in the write and sets no exit status.
\<close>

theorem Fatal_only_side_effect_counterexample:
  "level (snd run_c) \<le> gated_level GInfo \<and>
   call_gated GInfo go_growslice (quiet_env ''T'') (fst run_d1) (snd run_c) ''m''
     [\<lparr>Key = ''z'', Value = VInt 0\<rparr>] = run_logged \<and>
   exited run_logged = None \<and> \<not> panicked run_logged \<and>
   view (arrays (fst run_d1)) (fieldsS (snd run_d1)) =
     [\<lparr>Key = ''k1'', Value = VInt 1\<rparr>, \<lparr>Key = ''k2'', Value = VInt 2\<rparr>,
      \<lparr>Key = ''k3'', Value = VInt 3\<rparr>, \<lparr>Key = ''x'', Value = VInt 1\<rparr>] \<and>
   view (arrays run_logged) (fieldsS (snd run_d1)) =
     [\<lparr>Key = ''k1'', Value = VInt 1\<rparr>, \<lparr>Key = ''k2'', Value = VInt 2\<rparr>,
      \<lparr>Key = ''k3'', Value = VInt 3\<rparr>, \<lparr>Key = ''z'', Value = VInt 0\<rparr>] \<and>
   outputW (snd nil_logger) = NilWriter \<and>
   \<not> panicked (fst nil_logger) \<and>
   panicked (Fatal go_growslice (quiet_env ''T'') (fst nil_logger) (snd nil_logger) ''m'' []) \<and>
   exited (Fatal go_growslice (quiet_env ''T'') (fst nil_logger) (snd nil_logger) ''m'' []) = None"
proof -
  have "call_gated GInfo go_growslice (quiet_env ''T'') (fst run_d1) (snd run_c) ''m''
     [\<lparr>Key = ''z'', Value = VInt 0\<rparr>] = run_logged"
    by (simp add: run_logged_def)
  then show ?thesis
    by (simp add: run_logged_state run_c_logger view_def run_d1_arrays run_d1_logger
        run_logged_arrays nil_logger_eval Fatal_def log_write write_line_def
        write_outcome_def world0_def InfoLevel_def Let_def)
qed

text \<open>
  Claim C5, amended. Whatever the minimum level of the logger, when the write of its
  writer returns, \<open>Fatal\<close> is the call of \<open>log\<close> at \<open>FatalLevel\<close> followed by
  \<open>os.Exit(1)\<close>: the line goes to the sink when the sink accepts it, and to the fallback
  when the write returns an error, and the exit status is 1. When the write panics, as on
  the nil writer, the panic reaches the caller and no exit status is set. \<open>Fatal\<close> is the
  only level method without a level gate and the only one that sets an exit status: each
  of the four others does nothing under its gate and never sets one.
\<close>

theorem Fatal_writes_then_exits:
  "(write_outcome w (outputW l) \<noteq> Panics \<longrightarrow> \<not> panicked w \<longrightarrow>
      Fatal g e w l msg fs = os_Exit (log g e w l FatalLevel msg fs) 1 \<and>
      exited (Fatal g e w l msg fs) = Some 1 \<and>
      \<not> panicked (Fatal g e w l msg fs)) \<and>
   (\<not> broken w (outputW l) \<longrightarrow> \<not> panicked w \<longrightarrow>
      sinks (Fatal g e w l msg fs) =
        (sinks w)(outputW l := sinks w (outputW l) @ [logLine_of g e w l FatalLevel msg fs]) \<and>
      stdlog (Fatal g e w l msg fs) = stdlog w) \<and>
   (write_outcome w (outputW l) = Fails n \<longrightarrow> \<not> panicked w \<longrightarrow>
      stdlog (Fatal g e w l msg fs) = stdlog w @ [logLine_of g e w l FatalLevel msg fs]) \<and>
   (write_outcome w (outputW l) = Panics \<longrightarrow>
      panicked (Fatal g e w l msg fs) \<and> exited (Fatal g e w l msg fs) = exited w) \<and>
   exited (call_gated m g e w l msg fs) = exited w \<and>
   (gated_level m < level l \<longrightarrow> call_gated m g e w l msg fs = w)"
proof (intro conjI impI)
  assume r: "write_outcome w (outputW l) \<noteq> Panics" and np: "\<not> panicked w"
  from log_returns [OF r] np have "\<not> panicked (log g e w l FatalLevel msg fs)"
    by simp
  then show "Fatal g e w l msg fs = os_Exit (log g e w l FatalLevel msg fs) 1"
    and "exited (Fatal g e w l msg fs) = Some 1"
    and "\<not> panicked (Fatal g e w l msg fs)"
    by (simp_all add: Fatal_def os_Exit_def Let_def)
next
  assume a: "\<not> broken w (outputW l)" and np: "\<not> panicked w"
  from log_accepts [OF a] np show "sinks (Fatal g e w l msg fs) =
        (sinks w)(outputW l := sinks w (outputW l) @ [logLine_of g e w l FatalLevel msg fs])"
    and "stdlog (Fatal g e w l msg fs) = stdlog w"
    by (simp_all add: Fatal_def os_Exit_def Let_def)
next
  assume f: "write_outcome w (outputW l) = Fails n" and np: "\<not> panicked w"
  from log_fails [OF f] np
  show "stdlog (Fatal g e w l msg fs) = stdlog w @ [logLine_of g e w l FatalLevel msg fs]"
    by (simp add: Fatal_def os_Exit_def Let_def)
next
  assume p: "write_outcome w (outputW l) = Panics"
  from log_panics(1) [OF p] show "panicked (Fatal g e w l msg fs)"
    and "exited (Fatal g e w l msg fs) = exited w"
    by (simp_all add: Fatal_def Let_def log_exited)
next
  show "exited (call_gated m g e w l msg fs) = exited w"
    by (simp add: call_gated_eq log_exited)
next
  assume "gated_level m < level l"
  then show "call_gated m g e w l msg fs = w"
    by (simp add: call_gated_eq)
qed

theorem Fatal_writes_then_exits_witness:
  "write_outcome (fst (plain_logger 5 (Writer 1))) (outputW (snd (plain_logger 5 (Writer 1))))
     \<noteq> Panics \<and>
   \<not> broken (fst (plain_logger 5 (Writer 1))) (outputW (snd (plain_logger 5 (Writer 1)))) \<and>
   \<not> panicked (fst (plain_logger 5 (Writer 1))) \<and>
   gated_level GError < level (snd (plain_logger 5 (Writer 1))) \<and>
   Error go_growslice (quiet_env ''T'') (fst (plain_logger 5 (Writer 1)))
     (snd (plain_logger 5 (Writer 1))) ''m'' [] = fst (plain_logger 5 (Writer 1)) \<and>
   sinks (Fatal go_growslice (quiet_env ''T'') (fst (plain_logger 5 (Writer 1)))
     (snd (plain_logger 5 (Writer 1))) ''m'' []) (Writer 1) = [''T [FATAL] m'' @ [CHR 0x0A]] \<and>
   exited (Fatal go_growslice (quiet_env ''T'') (fst (plain_logger 5 (Writer 1)))
     (snd (plain_logger 5 (Writer 1))) ''m'' []) = Some 1 \<and>
   write_outcome (fst failing_logger) (outputW (snd failing_logger)) = Fails 3 \<and>
   \<not> panicked (fst failing_logger) \<and>
   stdlog (Fatal go_growslice (quiet_env ''T'') (fst failing_logger) (snd failing_logger)
     ''m'' []) = [''T [FATAL] m'' @ [CHR 0x0A]] \<and>
   exited (Fatal go_growslice (quiet_env ''T'') (fst failing_logger) (snd failing_logger)
     ''m'' []) = Some 1 \<and>
   write_outcome (fst nil_logger) (outputW (snd nil_logger)) = Panics \<and>
   panicked (Fatal go_growslice (quiet_env ''T'') (fst nil_logger) (snd nil_logger) ''m'' [])"
  using Fatal_writes_then_exits [of "fst (plain_logger 5 (Writer 1))"
      "snd (plain_logger 5 (Writer 1))" go_growslice "quiet_env ''T''" "''m''" "[]" 0 GError]
    Fatal_writes_then_exits [of "fst failing_logger" "snd failing_logger" go_growslice
      "quiet_env ''T''" "''m''" "[]" 3 GError]
    Fatal_writes_then_exits [of "fst nil_logger" "snd nil_logger" go_growslice
      "quiet_env ''T''" "''m''" "[]" 0 GError]
  by (simp add: plain_logger_def failing_logger_def broken_world_def nil_logger_def eval_defs
      Error_def Fatal_def os_Exit_def)

section \<open>Write failures\<close>

text \<open>
  Claim C6, as stated, at a concrete input: \<open>NewWithWriter\<close> takes the nil writer, and
  the first logging call on the logger it returns panics in the write. The panic reaches
  the caller, and the line is handed neither to the sink nor to the fallback.
\<close>

theorem nil_writer_panics_counterexample:
  "outputW (snd nil_logger) = NilWriter \<and>
   level (snd nil_logger) \<le> gated_level GInfo \<and>
   \<not> panicked (fst nil_logger) \<and>
   panicked (Info go_growslice (quiet_env ''T'') (fst nil_logger) (snd nil_logger) ''m'' []) \<and>
   stdlog (Info go_growslice (quiet_env ''T'') (fst nil_logger) (snd nil_logger) ''m'' []) = [] \<and>
   sinks (Info go_growslice (quiet_env ''T'') (fst nil_logger) (snd nil_logger) ''m'' [])
     NilWriter = []"
  by (simp add: nil_logger_eval Info_def log_write write_line_def write_outcome_def world0_def
      InfoLevel_def)

text \<open>
  Claim C6, amended. When the write of the logger's writer returns an error, having
  taken the first \<open>n\<close> bytes of the line, \<open>log\<close> hands the whole formatted line to the
  standard logger; the sink holds the bytes it took, and the exit status and the panic
  state are as before. So do the four gated methods when their gate is open, and
  \<open>Fatal\<close> hands the line over and then exits with status 1. Whenever the write
  returns, with or without an error, no level method panics, and none but \<open>Fatal\<close>
  sets an exit status; the methods have no error result. When the write panics, as on
  the nil writer, the panic reaches the caller and nothing is handed to the fallback.
\<close>

theorem write_failure_falls_back:
  "(write_outcome w (outputW l) = Fails n \<longrightarrow>
      stdlog (log g e w l lv msg fs) = stdlog w @ [logLine_of g e w l lv msg fs] \<and>
      sinks (log g e w l lv msg fs) =
        (sinks w)(outputW l :=
           keep_prefix (sinks w (outputW l)) (logLine_of g e w l lv msg fs) n) \<and>
      exited (log g e w l lv msg fs) = exited w \<and>
      (level l \<le> gated_level m \<longrightarrow>
         stdlog (call_gated m g e w l msg fs) =
           stdlog w @ [logLine_of g e w l (gated_level m) msg fs] \<and>
         sinks (call_gated m g e w l msg fs) =
           (sinks w)(outputW l :=
              keep_prefix (sinks w (outputW l))
                (logLine_of g e w l (gated_level m) msg fs) n)) \<and>
      (\<not> panicked w \<longrightarrow>
         stdlog (Fatal g e w l msg fs) = stdlog w @ [logLine_of g e w l FatalLevel msg fs] \<and>
         exited (Fatal g e w l msg fs) = Some 1)) \<and>
   (write_outcome w (outputW l) \<noteq> Panics \<longrightarrow>
      panicked (log g e w l lv msg fs) = panicked w \<and>
      panicked (call_gated m g e w l msg fs) = panicked w \<and>
      panicked (Fatal g e w l msg fs) = panicked w) \<and>
   exited (call_gated m g e w l msg fs) = exited w \<and>
   (write_outcome w (outputW l) = Panics \<longrightarrow>
      panicked (log g e w l lv msg fs) \<and>
      stdlog (log g e w l lv msg fs) = stdlog w \<and>
      sinks (log g e w l lv msg fs) = sinks w)"
proof (intro conjI impI)
  assume f: "write_outcome w (outputW l) = Fails n"
  note lf = log_fails [OF f]
  show "stdlog (log g e w l lv msg fs) = stdlog w @ [logLine_of g e w l lv msg fs]"
    by (rule lf(2))
  show "sinks (log g e w l lv msg fs) =
        (sinks w)(outputW l :=
           keep_prefix (sinks w (outputW l)) (logLine_of g e w l lv msg fs) n)"
    by (rule lf(1))
  show "exited (log g e w l lv msg fs) = exited w"
    by (rule log_exited)
  {
    assume "level l \<le> gated_level m"
    then show "stdlog (call_gated m g e w l msg fs) =
           stdlog w @ [logLine_of g e w l (gated_level m) msg fs]"
      and "sinks (call_gated m g e w l msg fs) =
           (sinks w)(outputW l :=
              keep_prefix (sinks w (outputW l))
                (logLine_of g e w l (gated_level m) msg fs) n)"
      by (simp_all add: call_gated_eq lf)
  }
  {
    assume np: "\<not> panicked w"
    with lf(3) [of g e FatalLevel msg fs]
    have "\<not> panicked (log g e w l FatalLevel msg fs)" by simp
    then show "stdlog (Fatal g e w l msg fs) =
        stdlog w @ [logLine_of g e w l FatalLevel msg fs]"
      and "exited (Fatal g e w l msg fs) = Some 1"
      by (simp_all add: Fatal_def os_Exit_def Let_def lf)
  }
next
  assume r: "write_outcome w (outputW l) \<noteq> Panics"
  note lr = log_returns [OF r]
  show "panicked (log g e w l lv msg fs) = panicked w"
    by (rule lr)
  show "panicked (call_gated m g e w l msg fs) = panicked w"
    by (simp add: call_gated_eq lr)
  show "panicked (Fatal g e w l msg fs) = panicked w"
    by (simp add: Fatal_def os_Exit_def Let_def lr)
next
  show "exited (call_gated m g e w l msg fs) = exited w"
    by (simp add: call_gated_eq log_exited)
next
  assume p: "write_outcome w (outputW l) = Panics"
  from log_panics [OF p] show "panicked (log g e w l lv msg fs)"
    and "stdlog (log g e w l lv msg fs) = stdlog w"
    and "sinks (log g e w l lv msg fs) = sinks w"
    by simp_all
qed

theorem write_failure_falls_back_witness:
  "write_outcome (fst failing_logger) (outputW (snd failing_logger)) = Fails 3 \<and>
   write_outcome (fst failing_logger) (outputW (snd failing_logger)) \<noteq> Panics \<and>
   level (snd failing_logger) \<le> gated_level GError \<and>
   \<not> panicked (fst failing_logger) \<and>
   stdlog (Error go_growslice (quiet_env ''T'') (fst failing_logger) (snd failing_logger)
     ''disk'' [\<lparr>Key = ''code'', Value = VInt 7\<rparr>]) = [''T [ERROR] disk code=7'' @ [CHR 0x0A]] \<and>
   sinks (Error go_growslice (quiet_env ''T'') (fst failing_logger) (snd failing_logger)
     ''disk'' [\<lparr>Key = ''code'', Value = VInt 7\<rparr>]) (Writer 0) = [''T [''] \<and>
   exited (Error go_growslice (quiet_env ''T'') (fst failing_logger) (snd failing_logger)
     ''disk'' [\<lparr>Key = ''code'', Value = VInt 7\<rparr>]) = None \<and>
   \<not> panicked (Error go_growslice (quiet_env ''T'') (fst failing_logger) (snd failing_logger)
     ''disk'' [\<lparr>Key = ''code'', Value = VInt 7\<rparr>]) \<and>
   write_outcome (fst nil_logger) (outputW (snd nil_logger)) = Panics \<and>
   panicked (log go_growslice (quiet_env ''T'') (fst nil_logger) (snd nil_logger) ErrorLevel
     ''disk'' [])"
  using write_failure_falls_back [of "fst failing_logger" "snd failing_logger" 3 go_growslice
      "quiet_env ''T''" ErrorLevel "''disk''" "[\<lparr>Key = ''code'', Value = VInt 7\<rparr>]" GError]
    write_failure_falls_back [of "fst nil_logger" "snd nil_logger" 0 go_growslice
      "quiet_env ''T''" ErrorLevel "''disk''" "[]" GError]
  by (simp add: failing_logger_def broken_world_def nil_logger_def eval_defs Error_def)

section \<open>The format of a line\<close>

lemma nocaller_wf: "wf_slice (arrays nocaller_world) (fieldsS nocaller_logger)"
  by (simp add: wf_slice_def nocaller_world_def nocaller_logger_def world0_def)

text \<open>
  Claim C4. For a logger \<open>l\<close> whose slice is well formed, the line a logging call hands
  to the writer is the timestamp, a space, the bracketed level name, a space, the message,
  then one \<open>key=value\<close> token per field, each after one space, the fields of the logger
  before the call-site fields and each list in its order, then the caller token if there
  is one, then one newline. With caller capture off and the fields \<open>a=1\<close>, \<open>b=x\<close> at
  level Info with message \<open>m\<close> the line is the timestamp followed by
  \<open> [INFO] m a=1 b=x\<close> and the newline; with no field at all the message is followed
  by the newline directly.
\<close>

theorem line_format:
  assumes "wf_slice (arrays w) (fieldsS l)"
  shows "log g e w l lv msg cs =
      write_line (w\<lparr>arrays := fst (append_slice g (arrays w) (fieldsS l) cs)\<rparr>) (outputW l)
        (logLine_of g e w l lv msg cs) \<and>
    logLine_of g e w l lv msg cs =
      now e @ '' ['' @ levelNames lv @ ''] '' @ msg @
      render_tokens (view (arrays w) (fieldsS l)) @ render_tokens cs @
      (if caller_info e l \<noteq> [] then '' caller='' @ caller_info e l else []) @ [CHR 0x0A] \<and>
    (\<not> caller l \<longrightarrow>
       view (arrays w) (fieldsS l) @ cs =
         [\<lparr>Key = ''a'', Value = VInt 1\<rparr>, \<lparr>Key = ''b'', Value = VStr ''x''\<rparr>] \<longrightarrow>
       logLine_of g e w l InfoLevel ''m'' cs = now e @ '' [INFO] m a=1 b=x'' @ [CHR 0x0A]) \<and>
    (\<not> caller l \<longrightarrow> view (arrays w) (fieldsS l) @ cs = [] \<longrightarrow>
       logLine_of g e w l lv msg cs = now e @ '' ['' @ levelNames lv @ ''] '' @ msg @ [CHR 0x0A])"
proof -
  have line: "logLine_of g e w l lv' msg' cs =
      now e @ '' ['' @ levelNames lv' @ ''] '' @ msg' @
      render_tokens (view (arrays w) (fieldsS l) @ cs) @
      (if caller_info e l \<noteq> [] then '' caller='' @ caller_info e l else []) @ [CHR 0x0A]"
    for lv' msg'
    by (simp add: logLine_of_view [OF assms] format_line_render)
  have tok: "render_tokens [\<lparr>Key = ''a'', Value = VInt 1\<rparr>, \<lparr>Key = ''b'', Value = VStr ''x''\<rparr>]
      = '' a=1 b=x''"
    by (simp add: render_tokens_def format_field_def itoa_def itoa_nat_digit digit_char_def)
  have split: "render_tokens (xs @ ys) = render_tokens xs @ render_tokens ys" for xs ys
    by (simp add: render_tokens_def)
  show ?thesis
  proof (intro conjI impI)
    show "log g e w l lv msg cs =
      write_line (w\<lparr>arrays := fst (append_slice g (arrays w) (fieldsS l) cs)\<rparr>) (outputW l)
        (logLine_of g e w l lv msg cs)"
      by (rule log_write)
    show "logLine_of g e w l lv msg cs =
      now e @ '' ['' @ levelNames lv @ ''] '' @ msg @
      render_tokens (view (arrays w) (fieldsS l)) @ render_tokens cs @
      (if caller_info e l \<noteq> [] then '' caller='' @ caller_info e l else []) @ [CHR 0x0A]"
      by (simp add: line split)
  next
    assume "\<not> caller l"
      and "view (arrays w) (fieldsS l) @ cs =
         [\<lparr>Key = ''a'', Value = VInt 1\<rparr>, \<lparr>Key = ''b'', Value = VStr ''x''\<rparr>]"
    then show "logLine_of g e w l InfoLevel ''m'' cs = now e @ '' [INFO] m a=1 b=x'' @ [CHR 0x0A]"
      by (simp add: line tok caller_info_disabled levelNames_def InfoLevel_def DebugLevel_def)
  next
    assume "\<not> caller l" and "view (arrays w) (fieldsS l) @ cs = []"
    then show "logLine_of g e w l lv msg cs =
        now e @ '' ['' @ levelNames lv @ ''] '' @ msg @ [CHR 0x0A]"
      by (simp add: line caller_info_disabled render_tokens_def del: append_is_Nil_conv)
  qed
qed

theorem line_format_witness:
  "wf_slice (arrays nocaller_world) (fieldsS nocaller_logger) \<and>
   \<not> caller nocaller_logger \<and>
   view (arrays nocaller_world) (fieldsS nocaller_logger) @ [\<lparr>Key = ''b'', Value = VStr ''x''\<rparr>] =
     [\<lparr>Key = ''a'', Value = VInt 1\<rparr>, \<lparr>Key = ''b'', Value = VStr ''x''\<rparr>] \<and>
   sinks (log go_growslice (quiet_env ''T'') nocaller_world nocaller_logger InfoLevel ''m''
     [\<lparr>Key = ''b'', Value = VStr ''x''\<rparr>]) (Writer 1) = [''T [INFO] m a=1 b=x'' @ [CHR 0x0A]]"
  using line_format [OF nocaller_wf, of go_growslice "quiet_env ''T''" InfoLevel "''m''"
      "[\<lparr>Key = ''b'', Value = VStr ''x''\<rparr>]"] nocaller_wf
  by (simp add: nocaller_world_def nocaller_logger_def world0_def view_def write_line_def
      write_outcome_def quiet_env_def caller_info_def levelNames_def render_tokens_def format_field_def
      itoa_def itoa_nat_digit digit_char_def InfoLevel_def DebugLevel_def)

section \<open>The global logger\<close>

text \<open>
  Claim C9. At process start the global logger is the logger \<open>New\<close> builds at level
  Info, whose sink is standard output. \<open>SetGlobalLogger\<close> replaces the reference and
  nothing else, \<open>GetGlobalLogger\<close> returns the current one, and each package-level
  function called after \<open>SetGlobalLogger p l\<close> is the method of \<open>l\<close> on the current
  world. A package-level logging call leaves the reference as it is.
\<close>

theorem global_logger_late_bound:
  "GetGlobalLogger (init_program w) = snd (New w InfoLevel) \<and>
   outputW (GetGlobalLogger (init_program w)) = Stdout \<and>
   level (GetGlobalLogger (init_program w)) = InfoLevel \<and>
   view (arrays (wld (init_program w))) (fieldsS (GetGlobalLogger (init_program w))) = [] \<and>
   GetGlobalLogger (SetGlobalLogger p l) = l \<and>
   wld (SetGlobalLogger p l) = wld p \<and>
   wld (pkg_Debug g e (SetGlobalLogger p l) msg fs) = Debug g e (wld p) l msg fs \<and>
   wld (pkg_Info g e (SetGlobalLogger p l) msg fs) = Info g e (wld p) l msg fs \<and>
   wld (pkg_Warn g e (SetGlobalLogger p l) msg fs) = Warn g e (wld p) l msg fs \<and>
   wld (pkg_Error g e (SetGlobalLogger p l) msg fs) = Error g e (wld p) l msg fs \<and>
   wld (pkg_Fatal g e (SetGlobalLogger p l) msg fs) = Fatal g e (wld p) l msg fs \<and>
   snd (pkg_WithField g (SetGlobalLogger p l) key v) = snd (WithField g (wld p) l key v) \<and>
   wld (fst (pkg_WithField g (SetGlobalLogger p l) key v)) = fst (WithField g (wld p) l key v) \<and>
   snd (pkg_WithFields g (SetGlobalLogger p l) fs) = snd (WithFields g (wld p) l fs) \<and>
   wld (fst (pkg_WithFields g (SetGlobalLogger p l) fs)) = fst (WithFields g (wld p) l fs) \<and>
   GetGlobalLogger (pkg_Debug g e p msg fs) = GetGlobalLogger p \<and>
   GetGlobalLogger (pkg_Info g e p msg fs) = GetGlobalLogger p \<and>
   GetGlobalLogger (pkg_Warn g e p msg fs) = GetGlobalLogger p \<and>
   GetGlobalLogger (pkg_Error g e p msg fs) = GetGlobalLogger p \<and>
   GetGlobalLogger (pkg_Fatal g e p msg fs) = GetGlobalLogger p \<and>
   GetGlobalLogger (fst (pkg_WithField g p key v)) = GetGlobalLogger p \<and>
   GetGlobalLogger (fst (pkg_WithFields g p fs)) = GetGlobalLogger p"
  by (simp add: init_program_def New_def make_empty_def GetGlobalLogger_def SetGlobalLogger_def
      pkg_Debug_def pkg_Info_def pkg_Warn_def pkg_Error_def pkg_Fatal_def pkg_WithField_def
      pkg_WithFields_def view_def split: prod.splits)

section \<open>The webhook handler\<close>

text \<open>
  Claim C7. On a fresh response writer: a request whose method is not POST gets status
  405; a POST whose body the decoder rejects gets status 400; a POST whose body decodes
  gets status 200, and the body \<open>Webhook processed\<close> when the connection takes the write.
  The 405 and 400 responses carry the message and a newline as plain text.
\<close>

theorem webhook_statuses:
  "(Method r \<noteq> ''POST'' \<longrightarrow>
      status (fst (handleConfluenceWebhook dec (fresh_rw err, lg) r)) = Some 405 \<and>
      (err = None \<longrightarrow>
         written (fst (handleConfluenceWebhook dec (fresh_rw err, lg) r)) =
           ''Method not allowed'' @ [CHR 0x0A])) \<and>
   (Method r = ''POST'' \<longrightarrow> dec (Body r) = None \<longrightarrow>
      status (fst (handleConfluenceWebhook dec (fresh_rw err, lg) r)) = Some 400 \<and>
      snd (handleConfluenceWebhook dec (fresh_rw err, lg) r) = lg \<and>
      (err = None \<longrightarrow>
         written (fst (handleConfluenceWebhook dec (fresh_rw err, lg) r)) =
           ''Invalid payload'' @ [CHR 0x0A])) \<and>
   (Method r = ''POST'' \<longrightarrow> dec (Body r) \<noteq> None \<longrightarrow>
      status (fst (handleConfluenceWebhook dec (fresh_rw err, lg) r)) = Some 200 \<and>
      (err = None \<longrightarrow>
         written (fst (handleConfluenceWebhook dec (fresh_rw err, lg) r)) =
           ''Webhook processed''))"
  by (auto simp: handleConfluenceWebhook_def http_Error_def Write_def WriteHeader_def
      fresh_rw_def Let_def split: option.splits)

theorem webhook_statuses_witness:
  "Method get_request \<noteq> ''POST'' \<and>
   status (fst (handleConfluenceWebhook sample_decode (fresh_rw None, []) get_request)) = Some 405 \<and>
   Method (post_request ''not json'') = ''POST'' \<and>
   sample_decode (Body (post_request ''not json'')) = None \<and>
   status (fst (handleConfluenceWebhook sample_decode (fresh_rw None, [])
     (post_request ''not json''))) = Some 400 \<and>
   Method (post_request sample_body) = ''POST'' \<and>
   sample_decode (Body (post_request sample_body)) \<noteq> None \<and>
   status (fst (handleConfluenceWebhook sample_decode (fresh_rw None, [])
     (post_request sample_body))) = Some 200 \<and>
   written (fst (handleConfluenceWebhook sample_decode (fresh_rw None, [])
     (post_request sample_body))) = ''Webhook processed''"
  using webhook_statuses [of get_request sample_decode None "[]"]
    webhook_statuses [of "post_request ''not json''" sample_decode None "[]"]
    webhook_statuses [of "post_request sample_body" sample_decode None "[]"]
  by (simp add: get_request_def post_request_def sample_decode_def sample_body_def)

section \<open>The health check\<close>

text \<open>
  Claim C10. The health check does not read the request: two requests get the same
  response. On a fresh response writer the status is 200, the content type is
  \<open>application/json\<close>, and, when the connection takes the write, the body is the JSON
  object with the status \<open>healthy\<close> and the given timestamp.
\<close>

theorem healthCheck_any_method:
  \<open>healthCheck w r t = healthCheck w r' t \<and>
   status (healthCheck (fresh_rw err) r t) = Some 200 \<and>
   headers (healthCheck (fresh_rw err) r t) ''Content-Type'' = Some ''application/json'' \<and>
   (err = None \<longrightarrow>
      written (healthCheck (fresh_rw err) r t) =
        ''{"status":"healthy","timestamp":"'' @ t @ ''"}'')\<close>
  by (auto simp: healthCheck_def Write_def WriteHeader_def fresh_rw_def Let_def
      split: option.splits)

theorem healthCheck_any_method_witness:
  \<open>status (healthCheck (fresh_rw None) (post_request []) ''2026-01-02T03:04:05Z'') = Some 200 \<and>
   written (healthCheck (fresh_rw None) \<lparr>Method = ''DELETE'', Body = []\<rparr> ''2026-01-02T03:04:05Z'') =
     ''{"status":"healthy","timestamp":"2026-01-02T03:04:05Z"}''\<close>
  using healthCheck_any_method [of "fresh_rw None" "post_request []" "''2026-01-02T03:04:05Z''"
      "post_request []" None]
    healthCheck_any_method [of "fresh_rw None" "\<lparr>Method = ''DELETE'', Body = []\<rparr>"
      "''2026-01-02T03:04:05Z''" "\<lparr>Method = ''DELETE'', Body = []\<rparr>" None]
  by simp

section \<open>Configuration\<close>

lemma getEnv_cases:
  "(environ key = None \<longrightarrow> getEnv environ key dflt = dflt) \<and>
   (environ key = Some v \<longrightarrow> getEnv environ key dflt = v)"
  by (simp add: getEnv_def)

lemma getDurationEnv_cases:
  "(environ key = None \<longrightarrow> getDurationEnv pd environ key dflt = dflt) \<and>
   (environ key = Some v \<longrightarrow> pd v = Some d \<longrightarrow> getDurationEnv pd environ key dflt = d) \<and>
   (environ key = Some v \<longrightarrow> pd v = None \<longrightarrow> getDurationEnv pd environ key dflt = dflt)"
  by (simp add: getDurationEnv_def)

text \<open>
  Claim C8, as stated, at a concrete environment: \<^verbatim>\<open>WRITE_TIMEOUT\<close> is set to
  \<^verbatim>\<open>abc\<close>, which is no duration, and the write timeout returned is not a value read
  from the variable but the one returned when the variable is absent.
\<close>

theorem LoadConfig_set_variable_counterexample:
  "sample_environ ''WRITE_TIMEOUT'' = Some ''abc'' \<and>
   Some (WriteTimeout (Server (LoadConfig sample_ParseDuration sample_environ))) \<noteq>
     sample_ParseDuration ''abc'' \<and>
   WriteTimeout (Server (LoadConfig sample_ParseDuration sample_environ)) =
     WriteTimeout (Server (LoadConfig sample_ParseDuration Map.empty))"
  by (simp add: LoadConfig_def getDurationEnv_def sample_environ_def sample_ParseDuration_def)

text \<open>
  Claim C8, amended. The port, the environment label and the log level are the values
  of \<^verbatim>\<open>PORT\<close>, \<^verbatim>\<open>ENVIRONMENT\<close> and \<^verbatim>\<open>LOG_LEVEL\<close> when set, and \<open>8080\<close>,
  \<open>development\<close> and \<open>info\<close> when absent. Each of the four timeouts is the parsed value
  of its variable when the variable is set and parses as a duration, and its default (15 s,
  15 s, 60 s, 30 s) when the variable is absent or does not parse. The maximum header size
  is 1 MiB in every environment.
\<close>

theorem LoadConfig_values:
  "(environ ''PORT'' = None \<longrightarrow> Port (Server (LoadConfig pd environ)) = ''8080'') \<and>
   (environ ''PORT'' = Some v1 \<longrightarrow> Port (Server (LoadConfig pd environ)) = v1) \<and>
   (environ ''ENVIRONMENT'' = None \<longrightarrow>
      Environment (App (LoadConfig pd environ)) = ''development'') \<and>
   (environ ''ENVIRONMENT'' = Some v2 \<longrightarrow> Environment (App (LoadConfig pd environ)) = v2) \<and>
   (environ ''LOG_LEVEL'' = None \<longrightarrow> LogLevel (App (LoadConfig pd environ)) = ''info'') \<and>
   (environ ''LOG_LEVEL'' = Some v3 \<longrightarrow> LogLevel (App (LoadConfig pd environ)) = v3) \<and>
   (environ ''READ_TIMEOUT'' = None \<longrightarrow>
      ReadTimeout (Server (LoadConfig pd environ)) = 15000000000) \<and>
   (environ ''READ_TIMEOUT'' = Some v4 \<longrightarrow> pd v4 = Some d4 \<longrightarrow>
      ReadTimeout (Server (LoadConfig pd environ)) = d4) \<and>
   (environ ''READ_TIMEOUT'' = Some v4 \<longrightarrow> pd v4 = None \<longrightarrow>
      ReadTimeout (Server (LoadConfig pd environ)) = 15000000000) \<and>
   (environ ''WRITE_TIMEOUT'' = None \<longrightarrow>
      WriteTimeout (Server (LoadConfig pd environ)) = 15000000000) \<and>
   (environ ''WRITE_TIMEOUT'' = Some v5 \<longrightarrow> pd v5 = Some d5 \<longrightarrow>
      WriteTimeout (Server (LoadConfig pd environ)) = d5) \<and>
   (environ ''WRITE_TIMEOUT'' = Some v5 \<longrightarrow> pd v5 = None \<longrightarrow>
      WriteTimeout (Server (LoadConfig pd environ)) = 15000000000) \<and>
   (environ ''IDLE_TIMEOUT'' = None \<longrightarrow>
      IdleTimeout (Server (LoadConfig pd environ)) = 60000000000) \<and>
   (environ ''IDLE_TIMEOUT'' = Some v6 \<longrightarrow> pd v6 = Some d6 \<longrightarrow>
      IdleTimeout (Server (LoadConfig pd environ)) = d6) \<and>
   (environ ''IDLE_TIMEOUT'' = Some v6 \<longrightarrow> pd v6 = None \<longrightarrow>
      IdleTimeout (Server (LoadConfig pd environ)) = 60000000000) \<and>
   (environ ''SHUTDOWN_TIMEOUT'' = None \<longrightarrow>
      ShutdownTimeout (Server (LoadConfig pd environ)) = 30000000000) \<and>
   (environ ''SHUTDOWN_TIMEOUT'' = Some v7 \<longrightarrow> pd v7 = Some d7 \<longrightarrow>
      ShutdownTimeout (Server (LoadConfig pd environ)) = d7) \<and>
   (environ ''SHUTDOWN_TIMEOUT'' = Some v7 \<longrightarrow> pd v7 = None \<longrightarrow>
      ShutdownTimeout (Server (LoadConfig pd environ)) = 30000000000) \<and>
   MaxHeaderBytes (Server (LoadConfig pd environ)) = 1048576"
  using getEnv_cases [of environ] getDurationEnv_cases [of environ]
  by (simp add: LoadConfig_def Second_def)

theorem LoadConfig_values_witness:
  "Port (Server (LoadConfig sample_ParseDuration Map.empty)) = ''8080'' \<and>
   ReadTimeout (Server (LoadConfig sample_ParseDuration Map.empty)) = 15000000000 \<and>
   WriteTimeout (Server (LoadConfig sample_ParseDuration Map.empty)) = 15000000000 \<and>
   IdleTimeout (Server (LoadConfig sample_ParseDuration Map.empty)) = 60000000000 \<and>
   ShutdownTimeout (Server (LoadConfig sample_ParseDuration Map.empty)) = 30000000000 \<and>
   MaxHeaderBytes (Server (LoadConfig sample_ParseDuration Map.empty)) = 1048576 \<and>
   Environment (App (LoadConfig sample_ParseDuration Map.empty)) = ''development'' \<and>
   LogLevel (App (LoadConfig sample_ParseDuration Map.empty)) = ''info'' \<and>
   sample_environ ''PORT'' = Some ''9090'' \<and>
   Port (Server (LoadConfig sample_ParseDuration sample_environ)) = ''9090'' \<and>
   sample_environ ''ENVIRONMENT'' = Some ''production'' \<and>
   Environment (App (LoadConfig sample_ParseDuration sample_environ)) = ''production'' \<and>
   sample_environ ''LOG_LEVEL'' = Some ''debug'' \<and>
   LogLevel (App (LoadConfig sample_ParseDuration sample_environ)) = ''debug'' \<and>
   sample_environ ''READ_TIMEOUT'' = Some ''5s'' \<and>
   sample_ParseDuration ''5s'' = Some 5000000000 \<and>
   ReadTimeout (Server (LoadConfig sample_ParseDuration sample_environ)) = 5000000000 \<and>
   sample_environ ''WRITE_TIMEOUT'' = Some ''abc'' \<and>
   sample_ParseDuration ''abc'' = None \<and>
   WriteTimeout (Server (LoadConfig sample_ParseDuration sample_environ)) = 15000000000 \<and>
   IdleTimeout (Server (LoadConfig sample_ParseDuration sample_environ)) = 5000000000 \<and>
   ShutdownTimeout (Server (LoadConfig sample_ParseDuration sample_environ)) = 5000000000"
  using LoadConfig_values [where environ = Map.empty and pd = sample_ParseDuration]
    LoadConfig_values [where environ = sample_environ and pd = sample_ParseDuration
      and ?v1.0 = "''9090''" and ?v2.0 = "''production''" and ?v3.0 = "''debug''"
      and ?v4.0 = "''5s''" and ?d4.0 = 5000000000 and ?v5.0 = "''abc''"
      and ?v6.0 = "''5s''" and ?d6.0 = 5000000000 and ?v7.0 = "''5s''" and ?d7.0 = 5000000000]
  by (simp add: sample_environ_def sample_ParseDuration_def Second_def)

end
